theory Spec2Isabelle
  imports Complex_Main
begin

section \<open>Python values and exceptions\<close>

text \<open>
  The module \<^verbatim>\<open>generative/networks/nets/patchgan_discriminator.py\<close> defines two classes,
  \<^verbatim>\<open>MultiScaleDiscriminator\<close> and \<^verbatim>\<open>NLayerDiscriminator\<close>.  Their constructors compute with
  Python integers (unbounded, modelled by \<open>int\<close>) and assemble \<^verbatim>\<open>Convolution\<close> blocks of the
  MONAI library; their \<^verbatim>\<open>forward\<close> methods thread a tensor through the registered blocks.

  The argument \<^verbatim>\<open>n_layers_D\<close> carries no run-time type check, so the value a caller passes
  may be an integer or a list; both are kept, because \<^verbatim>\<open>*\<close> and \<^verbatim>\<open>**\<close> act differently on
  them.
\<close>

datatype pyval = PyInt int | PyList "int list"

text \<open>
  The exceptions a call can end with.  \<open>AssertionError i n\<close> stands for the message
  \<^verbatim>\<open>"Your image size is too small to take in up to %d discriminators with n_layers = %d.
  Please reduce n_layers, reduce n_D or enter bigger images." % (index_D, self.n_layers_D)\<close>;
  its two arguments are the two formatted numbers.  \<open>TypeError\<close> is what \<^verbatim>\<open>2 ** xs\<close>
  raises for a list \<open>xs\<close>, \<open>IndexError\<close> what \<^verbatim>\<open>xs[-1]\<close> raises on an empty list, and
  \<open>RuntimeError\<close> is an error raised inside a library layer when it is applied.
\<close>

datatype error = AssertionError int int | TypeError | IndexError | RuntimeError

text \<open>\<^verbatim>\<open>v * k\<close>: multiplication on integers, repetition on lists (empty for \<open>k \<le> 0\<close>).\<close>

fun py_mul :: "pyval \<Rightarrow> int \<Rightarrow> pyval" where
  "py_mul (PyInt a) k = PyInt (a * k)"
| "py_mul (PyList xs) k = PyList (concat (replicate (nat k) xs))"

text \<open>
  \<^verbatim>\<open>int(n / 2)\<close> for an integer \<open>n\<close>: true division followed by truncation towards zero.
\<close>

definition py_int_half :: "int \<Rightarrow> int" where
  "py_int_half n = (if 0 \<le> n then n div 2 else - ((- n) div 2))"

text \<open>
  \<^verbatim>\<open>float(minimum_size_im) / (2 ** e)\<close>.  The quotient is taken in exact arithmetic; the
  floating-point computation of the source gives the same comparison with 1 as long as
  \<open>minimum_size_im\<close> is below \<open>2 ^ 53\<close> in absolute value and \<open>e\<close> is at most 1023.
  For a negative \<open>e\<close> Python's \<^verbatim>\<open>2 ** e\<close> is the reciprocal power, as \<open>powi\<close> is.
\<close>

definition output_size :: "int \<Rightarrow> int \<Rightarrow> real" where
  "output_size minimum_size_im e = real_of_int minimum_size_im / (2 powi e)"

section \<open>Modules\<close>

text \<open>
  The constructor arguments that \<^verbatim>\<open>MultiScaleDiscriminator.__init__\<close> hands unchanged to
  every \<^verbatim>\<open>NLayerDiscriminator\<close>.
\<close>

record config =
  spatial_dims :: int
  n_channels :: int
  in_channels :: int
  out_channels :: int
  kernel_size :: int
  activation :: string
  norm_type :: string
  bias :: bool
  dropout :: real
  minimum_size_im :: int

text \<open>
  A \<^verbatim>\<open>Convolution\<close> block of the library, as the keyword arguments it was created with.
  \<open>conv_padding = None\<close> is the call without a \<^verbatim>\<open>padding\<close> argument.  Creating a block
  is taken to succeed: what the library itself rejects or cannot allocate when a block is
  created is outside this model.
\<close>

record Convolution =
  conv_spatial_dims :: int
  conv_kernel_size :: int
  conv_in_channels :: int
  conv_out_channels :: int
  conv_act :: string
  conv_bias :: bool
  conv_norm :: string
  conv_dropout :: real
  conv_padding :: "int list option"
  conv_strides :: int

text \<open>
  Names of registered sub-modules: \<open>Layer l\<close> is \<^verbatim>\<open>"%d" % l_\<close>, \<open>Final_conv\<close> is
  \<^verbatim>\<open>"final_conv"\<close> and \<open>Discriminator i\<close> is \<^verbatim>\<open>"discriminator_%d" % i\<close>.
\<close>

datatype mod_name = Layer nat | Final_conv | Discriminator nat

text \<open>
  \<^verbatim>\<open>add_module\<close> stores into an ordered dictionary: a new name goes to the end, an
  existing name keeps its place and gets the new module.  \<^verbatim>\<open>children()\<close> yields the
  modules in that order.
\<close>

fun add_module :: "'k \<Rightarrow> 'm \<Rightarrow> ('k \<times> 'm) list \<Rightarrow> ('k \<times> 'm) list" where
  "add_module name m [] = [(name, m)]"
| "add_module name m (p # ps) =
     (if fst p = name then (name, m) # ps else p # add_module name m ps)"

definition children :: "('k \<times> 'm) list \<Rightarrow> 'm list" where
  "children mods = map snd mods"

section \<open>NLayerDiscriminator\<close>

record NLayerDiscriminator =
  D_n_layers_D :: int
  D_n_channels :: int
  D_modules :: "(mod_name \<times> Convolution) list"

text \<open>
  One pass of the loop \<^verbatim>\<open>for l_ in range(self.n_layers_D)\<close>; the state is the module
  dictionary together with \<^verbatim>\<open>input_channels\<close> and \<^verbatim>\<open>output_channels\<close>.
\<close>

definition layer_step ::
  "config \<Rightarrow> int list \<Rightarrow> (mod_name \<times> Convolution) list \<times> int \<times> int \<Rightarrow> nat \<Rightarrow>
   (mod_name \<times> Convolution) list \<times> int \<times> int" where
  "layer_step cfg padding st l =
     (case st of (mods, input_channels, output_channels) \<Rightarrow>
        (add_module (Layer l)
           \<lparr>conv_spatial_dims = spatial_dims cfg,
            conv_kernel_size = kernel_size cfg,
            conv_in_channels = input_channels,
            conv_out_channels = output_channels,
            conv_act = activation cfg,
            conv_bias = bias cfg,
            conv_norm = norm_type cfg,
            conv_dropout = dropout cfg,
            conv_padding = Some padding,
            conv_strides = 2\<rparr> mods,
         output_channels,
         output_channels * 2))"

definition final_conv :: "config \<Rightarrow> int \<Rightarrow> Convolution" where
  "final_conv cfg input_channels =
     \<lparr>conv_spatial_dims = spatial_dims cfg,
      conv_kernel_size = 1,
      conv_in_channels = input_channels,
      conv_out_channels = out_channels cfg,
      conv_act = activation cfg,
      conv_bias = bias cfg,
      conv_norm = norm_type cfg,
      conv_dropout = dropout cfg,
      conv_padding = None,
      conv_strides = 1\<rparr>"

text \<open>
  \<^verbatim>\<open>NLayerDiscriminator.__init__\<close>.  The product \<^verbatim>\<open>n_layers_D * (index_D + 1)\<close> is formed
  first; the power \<^verbatim>\<open>2 ** ...\<close> raises \<open>TypeError\<close> on a list; the size check comes before
  the first layer is created.
\<close>

definition NLayerDiscriminator_init ::
  "pyval \<Rightarrow> config \<Rightarrow> int list \<Rightarrow> int \<Rightarrow> error + NLayerDiscriminator" where
  "NLayerDiscriminator_init n_layers_D cfg padding index_D =
     (case py_mul n_layers_D (index_D + 1) of
        PyList _ \<Rightarrow> Inl TypeError
      | PyInt n \<Rightarrow>
          if output_size (minimum_size_im cfg) n < 1 then Inl (AssertionError index_D n)
          else
            (case foldl (layer_step cfg padding) ([], in_channels cfg, n_channels cfg * 2)
                    [0..<nat n] of
               (mods, input_channels, output_channels) \<Rightarrow>
                 Inr \<lparr>D_n_layers_D = n,
                      D_n_channels = n_channels cfg,
                      D_modules = add_module Final_conv (final_conv cfg input_channels) mods\<rparr>))"

text \<open>
  \<^verbatim>\<open>NLayerDiscriminator.forward\<close>.  The library layer is a parameter \<open>app\<close>: applying a
  block to a tensor gives a tensor or raises.  The loop appends each result to \<open>out\<close>,
  which starts as \<open>[x]\<close>.
\<close>

fun forward_loop ::
  "('m \<Rightarrow> 't \<Rightarrow> error + 't) \<Rightarrow> 'm list \<Rightarrow> 't list \<Rightarrow> error + 't list" where
  "forward_loop app [] out = Inr out"
| "forward_loop app (submodel # rest) out =
     (case app submodel (last out) of
        Inl e \<Rightarrow> Inl e
      | Inr intermediate_output \<Rightarrow> forward_loop app rest (out @ [intermediate_output]))"

datatype 't D_result = Output 't | Features "'t list"

definition NLayerDiscriminator_forward ::
  "(Convolution \<Rightarrow> 't \<Rightarrow> error + 't) \<Rightarrow> NLayerDiscriminator \<Rightarrow> 't \<Rightarrow> bool \<Rightarrow>
   error + 't D_result" where
  "NLayerDiscriminator_forward app D x get_intermediate_features =
     (case forward_loop app (children (D_modules D)) [x] of
        Inl e \<Rightarrow> Inl e
      | Inr out \<Rightarrow>
          Inr (if get_intermediate_features then Features (tl out) else Output (last out)))"

section \<open>MultiScaleDiscriminator\<close>

record MultiScaleDiscriminator =
  M_num_D :: int
  M_n_layers_D :: pyval
  M_n_channels :: int
  M_padding :: "int list"
  M_modules :: "(mod_name \<times> NLayerDiscriminator) list"

text \<open>The loop \<^verbatim>\<open>for i in range(self.num_D)\<close>; an exception of a sub-constructor ends it.\<close>

fun add_discriminators ::
  "pyval \<Rightarrow> config \<Rightarrow> int list \<Rightarrow> nat list \<Rightarrow> (mod_name \<times> NLayerDiscriminator) list \<Rightarrow>
   error + (mod_name \<times> NLayerDiscriminator) list" where
  "add_discriminators n_layers_D cfg padding [] mods = Inr mods"
| "add_discriminators n_layers_D cfg padding (i # rest) mods =
     (case NLayerDiscriminator_init n_layers_D cfg padding (int i) of
        Inl e \<Rightarrow> Inl e
      | Inr subnetD \<Rightarrow>
          add_discriminators n_layers_D cfg padding rest
            (add_module (Discriminator i) subnetD mods))"

definition MultiScaleDiscriminator_init ::
  "int \<Rightarrow> pyval \<Rightarrow> config \<Rightarrow> error + MultiScaleDiscriminator" where
  "MultiScaleDiscriminator_init num_D n_layers_D cfg =
     (let padding = replicate (nat (spatial_dims cfg)) (py_int_half (kernel_size cfg - 1))
      in case add_discriminators n_layers_D cfg padding [0..<nat num_D] [] of
           Inl e \<Rightarrow> Inl e
         | Inr mods \<Rightarrow>
             Inr \<lparr>M_num_D = num_D,
                  M_n_layers_D = n_layers_D,
                  M_n_channels = n_channels cfg,
                  M_padding = padding,
                  M_modules = mods\<rparr>)"

text \<open>
  \<^verbatim>\<open>MultiScaleDiscriminator.forward\<close>.  The state of the loop is the pair of lists
  \<open>out\<close> and \<open>intermediate_features\<close>.  With features requested, \<open>out_D\<close> is a list:
  \<^verbatim>\<open>out_D[:-1]\<close> is \<open>butlast\<close>, and \<^verbatim>\<open>out_D[-1]\<close> raises \<open>IndexError\<close> on an empty list.
\<close>

datatype 't M_result = Outputs "'t list" | Outputs_features "'t list" "'t list list"

fun discriminators_loop ::
  "(Convolution \<Rightarrow> 't \<Rightarrow> error + 't) \<Rightarrow> bool \<Rightarrow> 't \<Rightarrow> NLayerDiscriminator list \<Rightarrow>
   't list \<Rightarrow> 't list list \<Rightarrow> error + 't list \<times> 't list list" where
  "discriminators_loop app flag i [] out intermediate_features =
     Inr (out, intermediate_features)"
| "discriminators_loop app flag i (D # rest) out intermediate_features =
     (case NLayerDiscriminator_forward app D i flag of
        Inl e \<Rightarrow> Inl e
      | Inr (Features out_D) \<Rightarrow>
          if out_D = [] then Inl IndexError
          else discriminators_loop app flag i rest (out @ [last out_D])
                 (intermediate_features @ [butlast out_D])
      | Inr (Output out_D) \<Rightarrow>
          discriminators_loop app flag i rest (out @ [out_D]) intermediate_features)"

definition MultiScaleDiscriminator_forward ::
  "(Convolution \<Rightarrow> 't \<Rightarrow> error + 't) \<Rightarrow> MultiScaleDiscriminator \<Rightarrow> 't \<Rightarrow> bool \<Rightarrow>
   error + 't M_result" where
  "MultiScaleDiscriminator_forward app M i get_intermediate_features =
     (case discriminators_loop app get_intermediate_features i (children (M_modules M)) [] [] of
        Inl e \<Rightarrow> Inl e
      | Inr (out, intermediate_features) \<Rightarrow>
          Inr (if get_intermediate_features then Outputs_features out intermediate_features
               else Outputs out))"

section \<open>Tensor shapes under the library's convolution\<close>

text \<open>
  The \<^verbatim>\<open>Convolution\<close> block is code of the MONAI library, not of this repository: a
  convolution of PyTorch followed by dropout, normalisation and activation, which keep the
  shape.  Its effect on a shape \<open>(batch, channels, d\<^sub>1, ..., d\<^sub>k)\<close> is the documented rule
  of PyTorch's convolution with dilation 1: each spatial extent \<open>d\<close> becomes
  \<open>\<lfloor>(d + 2 * padding - kernel_size) / stride\<rfloor> + 1\<close>, the channel count must be
  \<open>in_channels\<close> and becomes \<open>out_channels\<close>, and a padded extent below the kernel size is
  an error.  Without a \<^verbatim>\<open>padding\<close> argument the block pads by \<open>(kernel_size - 1) / 2\<close>,
  for an odd kernel size.
\<close>

definition conv_extent :: "int \<Rightarrow> int \<Rightarrow> int \<Rightarrow> int \<Rightarrow> error + int" where
  "conv_extent k s p d =
     (if k < 1 \<or> s < 1 \<or> p < 0 \<or> d + 2 * p < k then Inl RuntimeError
      else Inr ((d + 2 * p - k) div s + 1))"

fun conv_extents :: "int \<Rightarrow> int \<Rightarrow> int list \<Rightarrow> int list \<Rightarrow> error + int list" where
  "conv_extents k s [] [] = Inr []"
| "conv_extents k s (p # ps) (d # ds) =
     (case conv_extent k s p d of
        Inl e \<Rightarrow> Inl e
      | Inr y \<Rightarrow> (case conv_extents k s ps ds of Inl e \<Rightarrow> Inl e | Inr ys \<Rightarrow> Inr (y # ys)))"
| "conv_extents k s ps ds = Inl RuntimeError"

definition Convolution_shape :: "Convolution \<Rightarrow> int list \<Rightarrow> error + int list" where
  "Convolution_shape c shape =
     (case shape of
        batch # channels # spatial \<Rightarrow>
          if int (length spatial) \<noteq> conv_spatial_dims c \<or> channels \<noteq> conv_in_channels c
          then Inl RuntimeError
          else
            (case conv_padding c of
               Some padding \<Rightarrow>
                 (case conv_extents (conv_kernel_size c) (conv_strides c) padding spatial of
                    Inl e \<Rightarrow> Inl e
                  | Inr ys \<Rightarrow> Inr (batch # conv_out_channels c # ys))
             | None \<Rightarrow>
                 if even (conv_kernel_size c) then Inl RuntimeError
                 else
                   (case conv_extents (conv_kernel_size c) (conv_strides c)
                           (replicate (length spatial) ((conv_kernel_size c - 1) div 2)) spatial of
                      Inl e \<Rightarrow> Inl e
                    | Inr ys \<Rightarrow> Inr (batch # conv_out_channels c # ys)))
      | _ \<Rightarrow> Inl RuntimeError)"

section \<open>Closed forms and observations used in the statements\<close>

text \<open>
  The number of input channels of the block at position \<open>l\<close> (the terminal block is at
  position \<open>n\<close> when there are \<open>n\<close> downsampling blocks).
\<close>

definition chan_in :: "config \<Rightarrow> nat \<Rightarrow> int" where
  "chan_in cfg l = (if l = 0 then in_channels cfg else n_channels cfg * 2 ^ l)"

text \<open>The downsampling block registered under the name \<open>Layer l\<close>.\<close>

definition down_layer :: "config \<Rightarrow> int list \<Rightarrow> nat \<Rightarrow> Convolution" where
  "down_layer cfg padding l =
     \<lparr>conv_spatial_dims = spatial_dims cfg,
      conv_kernel_size = kernel_size cfg,
      conv_in_channels = chan_in cfg l,
      conv_out_channels = n_channels cfg * 2 ^ (l + 1),
      conv_act = activation cfg,
      conv_bias = bias cfg,
      conv_norm = norm_type cfg,
      conv_dropout = dropout cfg,
      conv_padding = Some padding,
      conv_strides = 2\<rparr>"

text \<open>The discriminator with effective layer count \<open>n\<close>.\<close>

definition subnet :: "config \<Rightarrow> int list \<Rightarrow> int \<Rightarrow> NLayerDiscriminator" where
  "subnet cfg padding n =
     \<lparr>D_n_layers_D = n,
      D_n_channels = n_channels cfg,
      D_modules = map (\<lambda>l. (Layer l, down_layer cfg padding l)) [0..<nat n]
                    @ [(Final_conv, final_conv cfg (chan_in cfg (nat n)))]\<rparr>"

text \<open>The padding \<^verbatim>\<open>tuple([int((kernel_size - 1) / 2)] * spatial_dims)\<close>.\<close>

definition padding_of :: "config \<Rightarrow> int list" where
  "padding_of cfg = replicate (nat (spatial_dims cfg)) (py_int_half (kernel_size cfg - 1))"

text \<open>The size check of the discriminator with index \<open>i\<close>, for an integer layer count \<open>n0\<close>.\<close>

definition too_small :: "config \<Rightarrow> int \<Rightarrow> nat \<Rightarrow> bool" where
  "too_small cfg n0 i = (output_size (minimum_size_im cfg) (n0 * (int i + 1)) < 1)"

text \<open>The multi-scale discriminator built from an integer layer count \<open>n0\<close>.\<close>

definition multiscale :: "int \<Rightarrow> int \<Rightarrow> config \<Rightarrow> MultiScaleDiscriminator" where
  "multiscale num_D n0 cfg =
     \<lparr>M_num_D = num_D,
      M_n_layers_D = PyInt n0,
      M_n_channels = n_channels cfg,
      M_padding = padding_of cfg,
      M_modules = map (\<lambda>i. (Discriminator i, subnet cfg (padding_of cfg) (n0 * (int i + 1))))
                    [0..<nat num_D]\<rparr>"

text \<open>
  The outputs of a stack of layers, first to last: each layer is applied to the output of
  the one before it, the first to the input \<open>x\<close>.  An error of a layer ends the pass.
\<close>

fun layer_outputs :: "('m \<Rightarrow> 't \<Rightarrow> error + 't) \<Rightarrow> 'm list \<Rightarrow> 't \<Rightarrow> error + 't list" where
  "layer_outputs app [] x = Inr []"
| "layer_outputs app (m # ms) x =
     (case app m x of
        Inl e \<Rightarrow> Inl e
      | Inr y \<Rightarrow> (case layer_outputs app ms y of Inl e \<Rightarrow> Inl e | Inr ys \<Rightarrow> Inr (y # ys)))"

text \<open>The results of \<open>f\<close> on a list, in order; the first error ends the pass.\<close>

fun collect :: "('a \<Rightarrow> error + 'b) \<Rightarrow> 'a list \<Rightarrow> error + 'b list" where
  "collect f [] = Inr []"
| "collect f (a # as) =
     (case f a of
        Inl e \<Rightarrow> Inl e
      | Inr b \<Rightarrow> (case collect f as of Inl e \<Rightarrow> Inl e | Inr bs \<Rightarrow> Inr (b # bs)))"

text \<open>
  The configuration of the repository's tests (\<^verbatim>\<open>TEST_2D\<close> in \<^verbatim>\<open>tests/test_patch_gan.py\<close>).
\<close>

definition test_cfg :: config where
  "test_cfg =
     \<lparr>spatial_dims = 2, n_channels = 8, in_channels = 3, out_channels = 1, kernel_size = 3,
      activation = ''LEAKYRELU'', norm_type = ''instance'', bias = False, dropout = 1 / 10,
      minimum_size_im = 256\<rparr>"

text \<open>The list of terminal outputs in a result of \<^verbatim>\<open>MultiScaleDiscriminator.forward\<close>.\<close>

definition terminal_outputs :: "'t M_result \<Rightarrow> 't list" where
  "terminal_outputs r = (case r of Outputs out \<Rightarrow> out | Outputs_features out feats \<Rightarrow> out)"

text \<open>
  For every registered discriminator, in order, the outputs of its blocks on the same
  input \<open>x\<close>.
\<close>

definition scale_outputs ::
  "(Convolution \<Rightarrow> 't \<Rightarrow> error + 't) \<Rightarrow> MultiScaleDiscriminator \<Rightarrow> 't \<Rightarrow> error + 't list list" where
  "scale_outputs app M x =
     collect (\<lambda>D. layer_outputs app (children (D_modules D)) x) (children (M_modules M))"


text \<open>
  \<^verbatim>\<open>MultiScaleDiscriminator(num_D, n_layers_D, ...).forward(i, flag)\<close> on shapes:
  construction, then the forward pass with the library's shape rule for the blocks.
\<close>

definition construct_and_forward ::
  "int \<Rightarrow> pyval \<Rightarrow> config \<Rightarrow> int list \<Rightarrow> bool \<Rightarrow> error + int list M_result" where
  "construct_and_forward num_D n_layers_D cfg shape flag =
     (case MultiScaleDiscriminator_init num_D n_layers_D cfg of
        Inl e \<Rightarrow> Inl e
      | Inr M \<Rightarrow> MultiScaleDiscriminator_forward Convolution_shape M shape flag)"

text \<open>What a test reads off the results: layer counts, terminal shapes, feature lengths.\<close>

definition layer_counts :: "error + MultiScaleDiscriminator \<Rightarrow> int list" where
  "layer_counts r = (case r of Inl e \<Rightarrow> [] | Inr M \<Rightarrow> map D_n_layers_D (children (M_modules M)))"

definition terminal_shapes :: "error + 't M_result \<Rightarrow> 't list" where
  "terminal_shapes r = (case r of Inl e \<Rightarrow> [] | Inr res \<Rightarrow> terminal_outputs res)"

definition feature_lengths :: "error + 't M_result \<Rightarrow> nat list" where
  "feature_lengths r =
     (case r of
        Inl e \<Rightarrow> []
      | Inr (Outputs out) \<Rightarrow> []
      | Inr (Outputs_features out feats) \<Rightarrow> map length feats)"

section \<open>Construction of one discriminator\<close>

lemma add_module_fresh:
  "name \<notin> fst ` set ps \<Longrightarrow> add_module name m ps = ps @ [(name, m)]"
  by (induction ps) auto

lemma layer_fold:
  "foldl (layer_step cfg padding) ([], in_channels cfg, n_channels cfg * 2) [0..<n] =
     (map (\<lambda>l. (Layer l, down_layer cfg padding l)) [0..<n], chan_in cfg n,
      n_channels cfg * 2 ^ (n + 1))"
proof (induction n)
  case 0
  show ?case by (simp add: chan_in_def)
next
  case (Suc n)
  have fresh: "Layer n \<notin> fst ` set (map (\<lambda>l. (Layer l, down_layer cfg padding l)) [0..<n])"
    by auto
  show ?case
    using Suc add_module_fresh [OF fresh]
    by (simp add: layer_step_def down_layer_def chan_in_def)
qed

lemma NLayerDiscriminator_init_int:
  "NLayerDiscriminator_init (PyInt n0) cfg padding i =
     (if output_size (minimum_size_im cfg) (n0 * (i + 1)) < 1
      then Inl (AssertionError i (n0 * (i + 1)))
      else Inr (subnet cfg padding (n0 * (i + 1))))"
proof -
  have fresh: "Final_conv \<notin> fst ` set (map (\<lambda>l. (Layer l, down_layer cfg padding l)) [0..<k])"
    for k
    by auto
  show ?thesis
    using add_module_fresh [OF fresh]
    by (simp add: NLayerDiscriminator_init_def layer_fold subnet_def)
qed


section \<open>Construction of the multi-scale discriminator\<close>


lemma add_discriminators_ok:
  "distinct js \<Longrightarrow> Discriminator ` set js \<inter> fst ` set mods = {} \<Longrightarrow>
   \<forall>i\<in>set js. \<not> too_small cfg n0 i \<Longrightarrow>
   add_discriminators (PyInt n0) cfg padding js mods =
     Inr (mods @ map (\<lambda>i. (Discriminator i, subnet cfg padding (n0 * (int i + 1)))) js)"
proof (induction js arbitrary: mods)
  case Nil
  show ?case by simp
next
  case (Cons j js)
  let ?D = "subnet cfg padding (n0 * (int j + 1))"
  have fresh: "Discriminator j \<notin> fst ` set mods"
    using Cons.prems(2) by auto
  have step: "add_module (Discriminator j) ?D mods = mods @ [(Discriminator j, ?D)]"
    by (rule add_module_fresh [OF fresh])
  have disj: "Discriminator ` set js \<inter> fst ` set (mods @ [(Discriminator j, ?D)]) = {}"
    using Cons.prems(1,2) by auto
  have "add_discriminators (PyInt n0) cfg padding js (mods @ [(Discriminator j, ?D)]) =
      Inr ((mods @ [(Discriminator j, ?D)])
        @ map (\<lambda>i. (Discriminator i, subnet cfg padding (n0 * (int i + 1)))) js)"
    using Cons.IH [OF _ disj] Cons.prems(1,3) by simp
  then show ?case
    using Cons.prems(3) step
    by (simp add: NLayerDiscriminator_init_int too_small_def)
qed

lemma add_discriminators_fail:
  "distinct (pre @ [i]) \<Longrightarrow> Discriminator ` set pre \<inter> fst ` set mods = {} \<Longrightarrow>
   \<forall>j\<in>set pre. \<not> too_small cfg n0 j \<Longrightarrow> too_small cfg n0 i \<Longrightarrow>
   add_discriminators (PyInt n0) cfg padding (pre @ i # post) mods =
     Inl (AssertionError (int i) (n0 * (int i + 1)))"
proof (induction pre arbitrary: mods)
  case Nil
  then show ?case by (simp add: NLayerDiscriminator_init_int too_small_def)
next
  case (Cons j pre)
  let ?D = "subnet cfg padding (n0 * (int j + 1))"
  have fresh: "Discriminator j \<notin> fst ` set mods"
    using Cons.prems(2) by auto
  have step: "add_module (Discriminator j) ?D mods = mods @ [(Discriminator j, ?D)]"
    by (rule add_module_fresh [OF fresh])
  have disj: "Discriminator ` set pre \<inter> fst ` set (mods @ [(Discriminator j, ?D)]) = {}"
    using Cons.prems(1,2) by auto
  have "add_discriminators (PyInt n0) cfg padding (pre @ i # post) (mods @ [(Discriminator j, ?D)]) =
      Inl (AssertionError (int i) (n0 * (int i + 1)))"
    using Cons.IH [OF _ disj] Cons.prems(1,3,4) by simp
  then show ?case
    using Cons.prems(3) step
    by (simp add: NLayerDiscriminator_init_int too_small_def)
qed

lemma MultiScaleDiscriminator_init_ok:
  assumes "\<forall>i<nat num_D. \<not> too_small cfg n0 i"
  shows "MultiScaleDiscriminator_init num_D (PyInt n0) cfg = Inr (multiscale num_D n0 cfg)"
proof -
  have "add_discriminators (PyInt n0) cfg (padding_of cfg) [0..<nat num_D] [] =
      Inr ([] @ map (\<lambda>i. (Discriminator i, subnet cfg (padding_of cfg) (n0 * (int i + 1))))
        [0..<nat num_D])"
    using assms by (intro add_discriminators_ok) auto
  then show ?thesis
    by (simp add: MultiScaleDiscriminator_init_def multiscale_def padding_of_def Let_def)
qed

lemma MultiScaleDiscriminator_init_fail:
  assumes "i < nat num_D" and "too_small cfg n0 i" and "\<forall>j<i. \<not> too_small cfg n0 j"
  shows "MultiScaleDiscriminator_init num_D (PyInt n0) cfg =
           Inl (AssertionError (int i) (n0 * (int i + 1)))"
proof -
  have split: "[0..<nat num_D] = [0..<i] @ i # [Suc i..<nat num_D]"
  proof -
    have "[0..<i + (nat num_D - i)] = [0..<i] @ [i..<i + (nat num_D - i)]"
      by (rule upt_add_eq_append) simp
    then show ?thesis
      using assms(1) by (simp add: upt_conv_Cons)
  qed
  have "add_discriminators (PyInt n0) cfg (padding_of cfg) ([0..<i] @ i # [Suc i..<nat num_D]) [] =
      Inl (AssertionError (int i) (n0 * (int i + 1)))"
    using assms(2,3) by (intro add_discriminators_fail) auto
  then show ?thesis
    using split by (simp add: MultiScaleDiscriminator_init_def padding_of_def Let_def)
qed


section \<open>The forward pass of one discriminator\<close>

lemma layer_outputs_length: "layer_outputs app ms x = Inr ys \<Longrightarrow> length ys = length ms"
  by (induction ms arbitrary: x ys) (auto split: sum.splits)

lemma layer_outputs_Inl:
  "layer_outputs app ms x = Inl e \<Longrightarrow> \<exists>m\<in>set ms. \<exists>t. app m t = Inl e"
  by (induction ms arbitrary: x) (auto split: sum.splits)

lemma layer_outputs_total:
  "\<forall>m\<in>set ms. \<forall>t. \<exists>y. app m t = Inr y \<Longrightarrow> \<exists>ys. layer_outputs app ms x = Inr ys"
proof (cases "layer_outputs app ms x")
  case (Inl e)
  assume ok: "\<forall>m\<in>set ms. \<forall>t. \<exists>y. app m t = Inr y"
  from layer_outputs_Inl [OF Inl] obtain m t where "m \<in> set ms" and "app m t = Inl e"
    by blast
  with ok obtain y where "app m t = Inr y" by blast
  with \<open>app m t = Inl e\<close> show ?thesis by simp
next
  case (Inr ys)
  then show ?thesis by blast
qed


lemma forward_loop_eq:
  "out \<noteq> [] \<Longrightarrow>
   forward_loop app ms out =
     (case layer_outputs app ms (last out) of Inl e \<Rightarrow> Inl e | Inr ys \<Rightarrow> Inr (out @ ys))"
proof (induction ms arbitrary: out)
  case Nil
  show ?case by simp
next
  case (Cons m ms)
  show ?case
  proof (cases "app m (last out)")
    case (Inl e)
    then show ?thesis by simp
  next
    case (Inr y)
    have "forward_loop app ms (out @ [y]) =
        (case layer_outputs app ms (last (out @ [y])) of
           Inl e \<Rightarrow> Inl e | Inr ys \<Rightarrow> Inr ((out @ [y]) @ ys))"
      by (rule Cons.IH) simp
    then show ?thesis
      using Inr by (simp split: sum.splits)
  qed
qed

lemma NLayerDiscriminator_forward_eq:
  "NLayerDiscriminator_forward app D x flag =
     (case layer_outputs app (children (D_modules D)) x of
        Inl e \<Rightarrow> Inl e
      | Inr ys \<Rightarrow> Inr (if flag then Features ys else Output (last (x # ys))))"
proof -
  have "forward_loop app (children (D_modules D)) [x] =
      (case layer_outputs app (children (D_modules D)) (last [x]) of
         Inl e \<Rightarrow> Inl e | Inr ys \<Rightarrow> Inr ([x] @ ys))"
    by (rule forward_loop_eq) simp
  then show ?thesis
    by (simp add: NLayerDiscriminator_forward_def split: sum.splits)
qed

lemma children_subnet:
  "children (D_modules (subnet cfg padding n)) =
     map (down_layer cfg padding) [0..<nat n] @ [final_conv cfg (chan_in cfg (nat n))]"
  by (simp add: subnet_def children_def comp_def)

section \<open>The forward pass of the multi-scale discriminator\<close>

lemma collect_length: "collect f as = Inr bs \<Longrightarrow> length bs = length as"
  by (induction as arbitrary: bs) (auto split: sum.splits)

lemma collect_nth: "collect f as = Inr bs \<Longrightarrow> j < length as \<Longrightarrow> f (as ! j) = Inr (bs ! j)"
proof (induction as arbitrary: bs j)
  case Nil
  then show ?case by simp
next
  case (Cons a as)
  then show ?case
    by (cases j) (auto split: sum.splits)
qed

lemma collect_Inl: "collect f as = Inl e \<Longrightarrow> \<exists>a\<in>set as. f a = Inl e"
  by (induction as) (auto split: sum.splits)

lemma discriminators_loop_False:
  "discriminators_loop app False x Ds out feats =
     (case collect (\<lambda>D. layer_outputs app (children (D_modules D)) x) Ds of
        Inl e \<Rightarrow> Inl e
      | Inr yss \<Rightarrow> Inr (out @ map (\<lambda>ys. last (x # ys)) yss, feats))"
  by (induction Ds arbitrary: out)
    (auto simp: NLayerDiscriminator_forward_eq split: sum.splits)

lemma discriminators_loop_True:
  "\<forall>D\<in>set Ds. D_modules D \<noteq> [] \<Longrightarrow>
   discriminators_loop app True x Ds out feats =
     (case collect (\<lambda>D. layer_outputs app (children (D_modules D)) x) Ds of
        Inl e \<Rightarrow> Inl e
      | Inr yss \<Rightarrow> Inr (out @ map last yss, feats @ map butlast yss))"
proof (induction Ds arbitrary: out feats)
  case Nil
  show ?case by simp
next
  case (Cons D Ds)
  have ne: "layer_outputs app (children (D_modules D)) x = Inr ys \<Longrightarrow> ys \<noteq> []" for ys
    using Cons.prems layer_outputs_length [of app "children (D_modules D)" x ys]
    by (auto simp: children_def)
  have IH: "discriminators_loop app True x Ds out' feats' =
     (case collect (\<lambda>D. layer_outputs app (children (D_modules D)) x) Ds of
        Inl e \<Rightarrow> Inl e
      | Inr yss \<Rightarrow> Inr (out' @ map last yss, feats' @ map butlast yss))" for out' feats'
    using Cons.prems by (intro Cons.IH) simp
  show ?case
    using ne by (auto simp: NLayerDiscriminator_forward_eq IH split: sum.splits)
qed

section \<open>What a successful construction returns\<close>

lemma MultiScaleDiscriminator_init_Inr:
  assumes "MultiScaleDiscriminator_init num_D (PyInt n0) cfg = Inr M"
  shows "M = multiscale num_D n0 cfg" and "\<forall>i<nat num_D. \<not> too_small cfg n0 i"
proof -
  show ok: "\<forall>i<nat num_D. \<not> too_small cfg n0 i"
  proof (rule ccontr)
    assume "\<not> (\<forall>i<nat num_D. \<not> too_small cfg n0 i)"
    then have ex: "\<exists>i. i < nat num_D \<and> too_small cfg n0 i" by blast
    define i where "i = (LEAST i. i < nat num_D \<and> too_small cfg n0 i)"
    have i: "i < nat num_D \<and> too_small cfg n0 i"
      unfolding i_def using ex by (rule LeastI_ex)
    have least: "\<forall>j<i. \<not> too_small cfg n0 j"
    proof (intro allI impI)
      fix j assume "j < i"
      then have "\<not> (j < nat num_D \<and> too_small cfg n0 j)"
        unfolding i_def by (rule not_less_Least)
      with \<open>j < i\<close> i show "\<not> too_small cfg n0 j" by simp
    qed
    have "MultiScaleDiscriminator_init num_D (PyInt n0) cfg =
        Inl (AssertionError (int i) (n0 * (int i + 1)))"
      using i least by (intro MultiScaleDiscriminator_init_fail) auto
    with assms show False by simp
  qed
  show "M = multiscale num_D n0 cfg"
    using MultiScaleDiscriminator_init_ok [OF ok] assms by simp
qed

lemma children_multiscale:
  "children (M_modules (multiscale num_D n0 cfg)) =
     map (\<lambda>i. subnet cfg (padding_of cfg) (n0 * (int i + 1))) [0..<nat num_D]"
  by (simp add: multiscale_def children_def comp_def)

lemma NLayerDiscriminator_init_Inr:
  "NLayerDiscriminator_init (PyInt n0) cfg padding i = Inr D \<Longrightarrow>
   D = subnet cfg padding (n0 * (i + 1))"
  by (simp add: NLayerDiscriminator_init_int split: if_splits)

lemma filter_strides_subnet:
  "length (filter (\<lambda>c. conv_strides c = 2) (children (D_modules (subnet cfg padding n)))) = nat n"
  by (simp add: children_subnet final_conv_def down_layer_def filter_map comp_def)

lemma layer_outputs_subnet_nonempty:
  "layer_outputs app (children (D_modules (subnet cfg padding n))) x = Inr ys \<Longrightarrow>
   length ys = nat n + 1"
  by (drule layer_outputs_length) (simp add: children_subnet)


lemma subnet_minimum_size_im:
  "subnet (cfg\<lparr>minimum_size_im := m\<rparr>) padding n = subnet cfg padding n"
  by (simp add: subnet_def down_layer_def final_conv_def chan_in_def)

section \<open>Shapes through a constructed discriminator\<close>





















section \<open>The forward pass on a constructed multi-scale discriminator\<close>

lemma scale_outputs_nonempty:
  assumes "scale_outputs app (multiscale num_D n0 cfg) x = Inr yss"
  shows "length yss = nat num_D"
    and "i < nat num_D \<Longrightarrow>
         layer_outputs app (children (D_modules (subnet cfg (padding_of cfg) (n0 * (int i + 1))))) x
           = Inr (yss ! i)"
    and "i < nat num_D \<Longrightarrow> length (yss ! i) = nat (n0 * (int i + 1)) + 1"
    and "\<forall>ys\<in>set yss. ys \<noteq> []"
proof -
  let ?Ds = "children (M_modules (multiscale num_D n0 cfg))"
  have c: "collect (\<lambda>D. layer_outputs app (children (D_modules D)) x) ?Ds = Inr yss"
    using assms by (simp add: scale_outputs_def)
  show len: "length yss = nat num_D"
    using collect_length [OF c] by (simp add: children_multiscale)
  have nth: "layer_outputs app
      (children (D_modules (subnet cfg (padding_of cfg) (n0 * (int j + 1))))) x = Inr (yss ! j)"
    if "j < nat num_D" for j
    using collect_nth [OF c, of j] that by (simp add: children_multiscale)
  show "i < nat num_D \<Longrightarrow>
         layer_outputs app (children (D_modules (subnet cfg (padding_of cfg) (n0 * (int i + 1))))) x
           = Inr (yss ! i)"
    by (rule nth)
  have l: "length (yss ! j) = nat (n0 * (int j + 1)) + 1" if "j < nat num_D" for j
    using nth [OF that] by (rule layer_outputs_subnet_nonempty)
  show "i < nat num_D \<Longrightarrow> length (yss ! i) = nat (n0 * (int i + 1)) + 1"
    by (rule l)
  show "\<forall>ys\<in>set yss. ys \<noteq> []"
  proof
    fix ys assume "ys \<in> set yss"
    then obtain j where "j < length yss" and "ys = yss ! j"
      by (auto simp: in_set_conv_nth)
    then show "ys \<noteq> []" using l [of j] len by auto
  qed
qed

lemma MultiScaleDiscriminator_forward_eq:
  "MultiScaleDiscriminator_forward app (multiscale num_D n0 cfg) x flag =
     (case scale_outputs app (multiscale num_D n0 cfg) x of
        Inl e \<Rightarrow> Inl e
      | Inr yss \<Rightarrow>
          Inr (if flag then Outputs_features (map last yss) (map butlast yss)
               else Outputs (map last yss)))"
proof (cases flag)
  case True
  have ne: "\<forall>D\<in>set (children (M_modules (multiscale num_D n0 cfg))). D_modules D \<noteq> []"
    by (auto simp: children_multiscale subnet_def)
  show ?thesis
    using True
    by (simp add: MultiScaleDiscriminator_forward_def discriminators_loop_True [OF ne]
        scale_outputs_def split: sum.splits)
next
  case False
  have "map (\<lambda>ys. last (x # ys)) yss = map last yss"
    if "scale_outputs app (multiscale num_D n0 cfg) x = Inr yss" for yss
    using scale_outputs_nonempty(4) [OF that] by (intro map_cong) auto
  then show ?thesis
    using False
    by (simp add: MultiScaleDiscriminator_forward_def discriminators_loop_False
        scale_outputs_def split: sum.splits)
qed


lemma collect_total:
  "\<forall>a\<in>set as. \<exists>b. f a = Inr b \<Longrightarrow> \<exists>bs. collect f as = Inr bs"
proof (cases "collect f as")
  case (Inl e)
  assume ok: "\<forall>a\<in>set as. \<exists>b. f a = Inr b"
  from collect_Inl [OF Inl] obtain a where "a \<in> set as" and "f a = Inl e" by blast
  with ok show ?thesis by fastforce
next
  case (Inr bs)
  then show ?thesis by blast
qed

lemma scale_outputs_total:
  assumes "\<forall>c t. \<exists>y. app c t = Inr y"
  shows "\<exists>yss. scale_outputs app M x = Inr yss"
  unfolding scale_outputs_def
proof (rule collect_total, rule ballI)
  fix D :: NLayerDiscriminator
  show "\<exists>b. layer_outputs app (children (D_modules D)) x = Inr b"
    using assms by (intro layer_outputs_total) simp
qed

section \<open>Evaluations at the test configuration\<close>

lemma test_init: "MultiScaleDiscriminator_init 2 (PyInt 3) test_cfg = Inr (multiscale 2 3 test_cfg)"
  by code_simp

lemma test_init_D:
  "NLayerDiscriminator_init (PyInt 3) test_cfg [1, 1] 0 = Inr (subnet test_cfg [1, 1] 3)"
  by (simp add: NLayerDiscriminator_init_int output_size_def test_cfg_def)

lemma test_forward_features:
  "MultiScaleDiscriminator_forward Convolution_shape (multiscale 2 3 test_cfg) [1, 3, 256, 512] True =
     Inr (Outputs_features [[1, 1, 32, 64], [1, 1, 4, 8]]
       [[[1, 16, 128, 256], [1, 32, 64, 128], [1, 64, 32, 64]],
        [[1, 16, 128, 256], [1, 32, 64, 128], [1, 64, 32, 64], [1, 128, 16, 32],
         [1, 256, 8, 16], [1, 512, 4, 8]]])"
  by code_simp

lemma test_forward_outputs:
  "MultiScaleDiscriminator_forward Convolution_shape (multiscale 2 3 test_cfg) [1, 3, 256, 512] False =
     Inr (Outputs [[1, 1, 32, 64], [1, 1, 4, 8]])"
  by code_simp






section \<open>Properties\<close>



text \<open>
  C2.  For \<open>num_D = 2\<close>, layer count 3, \<open>minimum_size_im = 256\<close> (the
  configuration \<^verbatim>\<open>TEST_2D\<close>) and an input of shape \<open>(1, 3, 256, 512)\<close> with intermediate
  features requested: the effective layer counts are 3 and 6, the terminal outputs have
  the shapes \<open>(1, 1, 32, 64)\<close> and \<open>(1, 1, 4, 8)\<close>, and the two feature lists have 3 and 6
  entries (the outputs of the downsampling blocks; \<^verbatim>\<open>out_D[:-1]\<close> leaves the terminal output
  out), not 4 and 7.
\<close>

theorem test_2d_shapes:
  "layer_counts (MultiScaleDiscriminator_init 2 (PyInt 3) test_cfg) = [3, 6] \<and>
   terminal_shapes (construct_and_forward 2 (PyInt 3) test_cfg [1, 3, 256, 512] True) =
     [[1, 1, 32, 64], [1, 1, 4, 8]] \<and>
   feature_lengths (construct_and_forward 2 (PyInt 3) test_cfg [1, 3, 256, 512] True) = [3, 6]"
  by code_simp

theorem test_2d_shapes_counterexample:
  "construct_and_forward 2 (PyInt 3) test_cfg [1, 3, 256, 512] True =
     Inr (Outputs_features [[1, 1, 32, 64], [1, 1, 4, 8]]
       [[[1, 16, 128, 256], [1, 32, 64, 128], [1, 64, 32, 64]],
        [[1, 16, 128, 256], [1, 32, 64, 128], [1, 64, 32, 64], [1, 128, 16, 32],
         [1, 256, 8, 16], [1, 512, 4, 8]]]) \<and>
   feature_lengths (construct_and_forward 2 (PyInt 3) test_cfg [1, 3, 256, 512] True) \<noteq> [4, 7]"
  by code_simp






text \<open>
  C5.  In uniform layer-count mode (an integer \<open>n0\<close> for \<^verbatim>\<open>n_layers_D\<close>) a successful
  construction registers \<open>num_D\<close> discriminators, and the one with index \<open>i\<close> has the
  effective layer count \<open>n0 * (i + 1)\<close>: that is its attribute \<^verbatim>\<open>n_layers_D\<close>, and it is
  the number of its stride-2 blocks.
\<close>

theorem uniform_layer_count:
  assumes "MultiScaleDiscriminator_init num_D (PyInt n0) cfg = Inr M" and "i < nat num_D"
  shows "length (children (M_modules M)) = nat num_D \<and>
         D_n_layers_D (children (M_modules M) ! i) = n0 * (int i + 1) \<and>
         length (filter (\<lambda>c. conv_strides c = 2) (children (D_modules (children (M_modules M) ! i))))
           = nat (n0 * (int i + 1))"
proof -
  have M: "M = multiscale num_D n0 cfg"
    using assms(1) by (rule MultiScaleDiscriminator_init_Inr)
  have D: "children (M_modules M) ! i = subnet cfg (padding_of cfg) (n0 * (int i + 1))"
    using assms(2) by (simp add: M children_multiscale)
  show ?thesis
    unfolding D filter_strides_subnet
    by (simp add: M children_multiscale subnet_def)
qed

theorem uniform_layer_count_witness:
  "MultiScaleDiscriminator_init 2 (PyInt 3) test_cfg = Inr (multiscale 2 3 test_cfg) \<and>
   (1::nat) < nat 2 \<and>
   length (children (M_modules (multiscale 2 3 test_cfg))) = 2 \<and>
   D_n_layers_D (children (M_modules (multiscale 2 3 test_cfg)) ! 1) = 6 \<and>
   length (filter (\<lambda>c. conv_strides c = 2)
     (children (D_modules (children (M_modules (multiscale 2 3 test_cfg)) ! 1)))) = 6"
proof -
  have h: "MultiScaleDiscriminator_init 2 (PyInt 3) test_cfg = Inr (multiscale 2 3 test_cfg)"
    by (rule test_init)
  have i: "(1::nat) < nat 2" by simp
  show ?thesis
    using h i uniform_layer_count [OF h i] by simp
qed

text \<open>
  C6.  For a constructed multi-scale discriminator, a pass with intermediate features
  requested that returns gives, next to the \<open>num_D\<close> terminal outputs, \<open>num_D\<close> feature
  lists; the list at position \<open>i\<close> holds the block outputs of discriminator \<open>i\<close> on the
  input without the terminal one (followed by the terminal output it is the full sequence
  of that discriminator), so it has as many entries as the effective layer count
  \<open>n0 * (i + 1)\<close>.  When no block raises, the pass returns.
\<close>

theorem intermediate_feature_lists:
  assumes "MultiScaleDiscriminator_init num_D (PyInt n0) cfg = Inr M"
  shows "(\<forall>r. MultiScaleDiscriminator_forward app M x True = Inr r \<longrightarrow>
            (\<exists>out feats. r = Outputs_features out feats \<and>
               length out = nat num_D \<and> length feats = nat num_D \<and>
               (\<forall>i<nat num_D.
                  NLayerDiscriminator_forward app (children (M_modules M) ! i) x True =
                    Inr (Features (feats ! i @ [out ! i])) \<and>
                  length (feats ! i) = nat (D_n_layers_D (children (M_modules M) ! i)) \<and>
                  D_n_layers_D (children (M_modules M) ! i) = n0 * (int i + 1)))) \<and>
         ((\<forall>c t. \<exists>y. app c t = Inr y) \<longrightarrow>
            (\<exists>r. MultiScaleDiscriminator_forward app M x True = Inr r))"
proof -
  have M: "M = multiscale num_D n0 cfg"
    using assms by (rule MultiScaleDiscriminator_init_Inr)
  have part1: "\<exists>out feats. r = Outputs_features out feats \<and>
               length out = nat num_D \<and> length feats = nat num_D \<and>
               (\<forall>i<nat num_D.
                  NLayerDiscriminator_forward app (children (M_modules M) ! i) x True =
                    Inr (Features (feats ! i @ [out ! i])) \<and>
                  length (feats ! i) = nat (D_n_layers_D (children (M_modules M) ! i)) \<and>
                  D_n_layers_D (children (M_modules M) ! i) = n0 * (int i + 1))"
    if r: "MultiScaleDiscriminator_forward app M x True = Inr r" for r
  proof -
    from r obtain yss where yss: "scale_outputs app (multiscale num_D n0 cfg) x = Inr yss"
      and out: "r = Outputs_features (map last yss) (map butlast yss)"
      unfolding M MultiScaleDiscriminator_forward_eq
      by (auto split: sum.splits)
    have len: "length yss = nat num_D"
      using yss by (rule scale_outputs_nonempty(1))
    have each: "NLayerDiscriminator_forward app (children (M_modules M) ! i) x True =
                    Inr (Features (map butlast yss ! i @ [map last yss ! i])) \<and>
                  length (map butlast yss ! i) = nat (D_n_layers_D (children (M_modules M) ! i)) \<and>
                  D_n_layers_D (children (M_modules M) ! i) = n0 * (int i + 1)"
      if i: "i < nat num_D" for i
    proof -
      have D: "children (M_modules M) ! i = subnet cfg (padding_of cfg) (n0 * (int i + 1))"
        using i by (simp add: M children_multiscale)
      have lo: "layer_outputs app (children (D_modules (children (M_modules M) ! i))) x
          = Inr (yss ! i)"
        unfolding D using yss i by (rule scale_outputs_nonempty(2))
      have l: "length (yss ! i) = nat (n0 * (int i + 1)) + 1"
        using yss i by (rule scale_outputs_nonempty(3))
      then have ne: "yss ! i \<noteq> []" by auto
      have n: "D_n_layers_D (children (M_modules M) ! i) = n0 * (int i + 1)"
        by (simp add: D subnet_def)
      show ?thesis
        using lo i len l ne n by (simp add: NLayerDiscriminator_forward_eq)
    qed
    show ?thesis
      using each len out by simp
  qed
  have part2: "\<exists>r. MultiScaleDiscriminator_forward app M x True = Inr r"
    if "\<forall>c t. \<exists>y. app c t = Inr y"
  proof -
    from scale_outputs_total [OF that]
    obtain yss where "scale_outputs app (multiscale num_D n0 cfg) x = Inr yss" by blast
    then show ?thesis
      unfolding M MultiScaleDiscriminator_forward_eq by simp
  qed
  show ?thesis
    using part1 part2 by blast
qed

theorem intermediate_feature_lists_witness:
  "MultiScaleDiscriminator_init 2 (PyInt 3) test_cfg = Inr (multiscale 2 3 test_cfg) \<and>
   MultiScaleDiscriminator_forward Convolution_shape (multiscale 2 3 test_cfg) [1, 3, 256, 512] True =
     Inr (Outputs_features [[1, 1, 32, 64], [1, 1, 4, 8]]
       [[[1, 16, 128, 256], [1, 32, 64, 128], [1, 64, 32, 64]],
        [[1, 16, 128, 256], [1, 32, 64, 128], [1, 64, 32, 64], [1, 128, 16, 32],
         [1, 256, 8, 16], [1, 512, 4, 8]]]) \<and>
   NLayerDiscriminator_forward Convolution_shape (children (M_modules (multiscale 2 3 test_cfg)) ! 1)
     [1, 3, 256, 512] True =
     Inr (Features [[1, 16, 128, 256], [1, 32, 64, 128], [1, 64, 32, 64], [1, 128, 16, 32],
         [1, 256, 8, 16], [1, 512, 4, 8], [1, 1, 4, 8]]) \<and>
   D_n_layers_D (children (M_modules (multiscale 2 3 test_cfg)) ! 1) = 6"
proof -
  have h: "MultiScaleDiscriminator_init 2 (PyInt 3) test_cfg = Inr (multiscale 2 3 test_cfg)"
    by (rule test_init)
  let ?out = "[[1, 1, 32, 64], [1, 1, 4, 8 :: int]]"
  let ?feats = "[[[1, 16, 128, 256], [1, 32, 64, 128], [1, 64, 32, 64]],
        [[1, 16, 128, 256], [1, 32, 64, 128], [1, 64, 32, 64], [1, 128, 16, 32],
         [1, 256, 8, 16], [1, 512, 4, 8 :: int]]]"
  have "\<exists>out feats. Outputs_features ?out ?feats = Outputs_features out feats \<and>
      length out = nat 2 \<and> length feats = nat 2 \<and>
      (\<forall>i<nat 2.
         NLayerDiscriminator_forward Convolution_shape
           (children (M_modules (multiscale 2 3 test_cfg)) ! i) [1, 3, 256, 512] True =
           Inr (Features (feats ! i @ [out ! i])) \<and>
         length (feats ! i) = nat (D_n_layers_D (children (M_modules (multiscale 2 3 test_cfg)) ! i)) \<and>
         D_n_layers_D (children (M_modules (multiscale 2 3 test_cfg)) ! i) = 3 * (int i + 1))"
    using intermediate_feature_lists [OF h, of Convolution_shape "[1, 3, 256, 512]"]
      test_forward_features by blast
  then have all: "\<forall>i<nat 2.
         NLayerDiscriminator_forward Convolution_shape
           (children (M_modules (multiscale 2 3 test_cfg)) ! i) [1, 3, 256, 512] True =
           Inr (Features (?feats ! i @ [?out ! i])) \<and>
         D_n_layers_D (children (M_modules (multiscale 2 3 test_cfg)) ! i) = 3 * (int i + 1)"
    by simp
  have "1 < nat 2 \<longrightarrow>
         NLayerDiscriminator_forward Convolution_shape
           (children (M_modules (multiscale 2 3 test_cfg)) ! 1) [1, 3, 256, 512] True =
           Inr (Features (?feats ! 1 @ [?out ! 1])) \<and>
         D_n_layers_D (children (M_modules (multiscale 2 3 test_cfg)) ! 1) = 3 * (int 1 + 1)"
    using all by (rule spec)
  then show ?thesis
    using h test_forward_features by simp
qed

text \<open>
  C7.  For a constructed multi-scale discriminator and either value of the flag, a pass that
  returns gives \<open>num_D\<close> terminal outputs, and the one at position \<open>i\<close> is the terminal
  output, on the input \<open>x\<close> itself, of the discriminator registered at position \<open>i\<close>, which
  is the one built with index \<open>i\<close> (effective layer count \<open>n0 * (i + 1)\<close>).  When no block
  raises, the pass returns.
\<close>

theorem forward_dispatch:
  assumes "MultiScaleDiscriminator_init num_D (PyInt n0) cfg = Inr M"
  shows "(\<forall>r. MultiScaleDiscriminator_forward app M x flag = Inr r \<longrightarrow>
            length (terminal_outputs r) = nat num_D \<and>
            (\<forall>i<nat num_D.
               D_n_layers_D (children (M_modules M) ! i) = n0 * (int i + 1) \<and>
               NLayerDiscriminator_forward app (children (M_modules M) ! i) x False =
                 Inr (Output (terminal_outputs r ! i)))) \<and>
         ((\<forall>c t. \<exists>y. app c t = Inr y) \<longrightarrow>
            (\<exists>r. MultiScaleDiscriminator_forward app M x flag = Inr r))"
proof -
  have M: "M = multiscale num_D n0 cfg"
    using assms by (rule MultiScaleDiscriminator_init_Inr)
  have part1: "length (terminal_outputs r) = nat num_D \<and>
            (\<forall>i<nat num_D.
               D_n_layers_D (children (M_modules M) ! i) = n0 * (int i + 1) \<and>
               NLayerDiscriminator_forward app (children (M_modules M) ! i) x False =
                 Inr (Output (terminal_outputs r ! i)))"
    if r: "MultiScaleDiscriminator_forward app M x flag = Inr r" for r
  proof -
    from r obtain yss where yss: "scale_outputs app (multiscale num_D n0 cfg) x = Inr yss"
      and out: "terminal_outputs r = map last yss"
      unfolding M MultiScaleDiscriminator_forward_eq
      by (auto simp: terminal_outputs_def split: sum.splits if_splits)
    have len: "length yss = nat num_D"
      using yss by (rule scale_outputs_nonempty(1))
    have each: "D_n_layers_D (children (M_modules M) ! i) = n0 * (int i + 1) \<and>
               NLayerDiscriminator_forward app (children (M_modules M) ! i) x False =
                 Inr (Output (terminal_outputs r ! i))" if i: "i < nat num_D" for i
    proof -
      have D: "children (M_modules M) ! i = subnet cfg (padding_of cfg) (n0 * (int i + 1))"
        using i by (simp add: M children_multiscale)
      have lo: "layer_outputs app (children (D_modules (children (M_modules M) ! i))) x
          = Inr (yss ! i)"
        unfolding D using yss i by (rule scale_outputs_nonempty(2))
      have "length (yss ! i) = nat (n0 * (int i + 1)) + 1"
        using yss i by (rule scale_outputs_nonempty(3))
      then have "last (x # yss ! i) = last (yss ! i)"
        by (cases "yss ! i") simp_all
      then show ?thesis
        using lo i len by (simp add: NLayerDiscriminator_forward_eq out D subnet_def)
    qed
    show ?thesis
      using each len out by simp
  qed
  have part2: "\<exists>r. MultiScaleDiscriminator_forward app M x flag = Inr r"
    if "\<forall>c t. \<exists>y. app c t = Inr y"
  proof -
    from scale_outputs_total [OF that]
    obtain yss where "scale_outputs app (multiscale num_D n0 cfg) x = Inr yss" by blast
    then show ?thesis
      unfolding M MultiScaleDiscriminator_forward_eq by simp
  qed
  show ?thesis
    using part1 part2 by blast
qed

theorem forward_dispatch_witness:
  "MultiScaleDiscriminator_init 2 (PyInt 3) test_cfg = Inr (multiscale 2 3 test_cfg) \<and>
   MultiScaleDiscriminator_forward Convolution_shape (multiscale 2 3 test_cfg) [1, 3, 256, 512] False =
     Inr (Outputs [[1, 1, 32, 64], [1, 1, 4, 8]]) \<and>
   NLayerDiscriminator_forward Convolution_shape (children (M_modules (multiscale 2 3 test_cfg)) ! 0)
     [1, 3, 256, 512] False = Inr (Output [1, 1, 32, 64]) \<and>
   NLayerDiscriminator_forward Convolution_shape (children (M_modules (multiscale 2 3 test_cfg)) ! 1)
     [1, 3, 256, 512] False = Inr (Output [1, 1, 4, 8])"
proof -
  have h: "MultiScaleDiscriminator_init 2 (PyInt 3) test_cfg = Inr (multiscale 2 3 test_cfg)"
    by (rule test_init)
  let ?r = "Outputs [[1, 1, 32, 64], [1, 1, 4, 8 :: int]]"
  have "MultiScaleDiscriminator_forward Convolution_shape (multiscale 2 3 test_cfg)
      [1, 3, 256, 512] False = Inr ?r \<longrightarrow>
    length (terminal_outputs ?r) = nat 2 \<and>
    (\<forall>i<nat 2.
       D_n_layers_D (children (M_modules (multiscale 2 3 test_cfg)) ! i) = 3 * (int i + 1) \<and>
       NLayerDiscriminator_forward Convolution_shape
         (children (M_modules (multiscale 2 3 test_cfg)) ! i) [1, 3, 256, 512] False =
         Inr (Output (terminal_outputs ?r ! i)))"
    using forward_dispatch [OF h, of Convolution_shape "[1, 3, 256, 512]" False] by blast
  then have all: "\<forall>i<nat 2.
       NLayerDiscriminator_forward Convolution_shape
         (children (M_modules (multiscale 2 3 test_cfg)) ! i) [1, 3, 256, 512] False =
         Inr (Output (terminal_outputs ?r ! i))"
    using test_forward_outputs by simp
  have "0 < nat 2 \<longrightarrow> NLayerDiscriminator_forward Convolution_shape
         (children (M_modules (multiscale 2 3 test_cfg)) ! 0) [1, 3, 256, 512] False =
         Inr (Output (terminal_outputs ?r ! 0))"
    using all by (rule spec)
  moreover have "1 < nat 2 \<longrightarrow> NLayerDiscriminator_forward Convolution_shape
         (children (M_modules (multiscale 2 3 test_cfg)) ! 1) [1, 3, 256, 512] False =
         Inr (Output (terminal_outputs ?r ! 1))"
    using all by (rule spec)
  ultimately show ?thesis
    using h test_forward_outputs by (simp add: terminal_outputs_def)
qed

text \<open>
  C8.  For a constructed discriminator with \<open>n\<close> downsampling blocks, block \<open>0\<close> takes
  \<open>in_channels\<close>, every later block takes what the block before it puts out, block \<open>l\<close>
  puts out \<open>n_channels * 2 ^ (l + 1)\<close> channels (so the first puts out twice \<open>n_channels\<close>
  and each one twice the one before), with the configured kernel size, stride 2 and the
  given padding; the terminal block takes the channels of the last downsampling block (or
  \<open>in_channels\<close> when there is none) to \<open>out_channels\<close> with kernel size 1 and stride 1.
\<close>

theorem channel_progression:
  assumes "NLayerDiscriminator_init (PyInt n0) cfg padding index_D = Inr D"
    and "cs = children (D_modules D)" and "n = nat (D_n_layers_D D)"
  shows "length cs = n + 1 \<and>
         (\<forall>l<n. conv_in_channels (cs ! l) =
                   (if l = 0 then in_channels cfg else conv_out_channels (cs ! (l - 1))) \<and>
                 conv_out_channels (cs ! l) = n_channels cfg * 2 ^ (l + 1) \<and>
                 conv_kernel_size (cs ! l) = kernel_size cfg \<and>
                 conv_strides (cs ! l) = 2 \<and>
                 conv_padding (cs ! l) = Some padding) \<and>
         conv_in_channels (cs ! n) =
           (if n = 0 then in_channels cfg else conv_out_channels (cs ! (n - 1))) \<and>
         conv_out_channels (cs ! n) = out_channels cfg \<and>
         conv_kernel_size (cs ! n) = 1 \<and>
         conv_strides (cs ! n) = 1 \<and>
         conv_padding (cs ! n) = None"
proof -
  have D: "D = subnet cfg padding (n0 * (index_D + 1))"
    using assms(1) by (rule NLayerDiscriminator_init_Inr)
  have n: "n = nat (n0 * (index_D + 1))"
    by (simp add: assms(3) D subnet_def)
  have cs: "cs = map (down_layer cfg padding) [0..<n] @ [final_conv cfg (chan_in cfg n)]"
    by (simp add: assms(2) D children_subnet n)
  have len: "length cs = n + 1"
    by (simp add: cs)
  have down: "cs ! l = down_layer cfg padding l" if "l < n" for l
    using that by (simp add: cs nth_append)
  have final: "cs ! n = final_conv cfg (chan_in cfg n)"
    by (simp add: cs nth_append)
  have layers: "conv_in_channels (cs ! l) =
                   (if l = 0 then in_channels cfg else conv_out_channels (cs ! (l - 1))) \<and>
                 conv_out_channels (cs ! l) = n_channels cfg * 2 ^ (l + 1) \<and>
                 conv_kernel_size (cs ! l) = kernel_size cfg \<and>
                 conv_strides (cs ! l) = 2 \<and>
                 conv_padding (cs ! l) = Some padding" if "l < n" for l
  proof (cases l)
    case 0
    then show ?thesis using down [OF that] by (simp add: down_layer_def chan_in_def)
  next
    case (Suc k)
    then have "k < n" using that by simp
    then show ?thesis
      using down [OF that] down [of k] Suc by (simp add: down_layer_def chan_in_def)
  qed
  have term_in: "conv_in_channels (cs ! n) =
           (if n = 0 then in_channels cfg else conv_out_channels (cs ! (n - 1)))"
  proof (cases n)
    case 0
    then show ?thesis using final by (simp add: final_conv_def chan_in_def)
  next
    case (Suc k)
    then have "k < n" by simp
    then show ?thesis
      using final down [of k] Suc by (simp add: final_conv_def down_layer_def chan_in_def)
  qed
  show ?thesis
    using len layers term_in final by (simp add: final_conv_def)
qed

theorem channel_progression_witness:
  "NLayerDiscriminator_init (PyInt 3) test_cfg [1, 1] 0 = Inr (subnet test_cfg [1, 1] 3) \<and>
   length (children (D_modules (subnet test_cfg [1, 1] 3))) = 4 \<and>
   map conv_in_channels (children (D_modules (subnet test_cfg [1, 1] 3))) = [3, 16, 32, 64] \<and>
   map conv_out_channels (children (D_modules (subnet test_cfg [1, 1] 3))) = [16, 32, 64, 1] \<and>
   conv_kernel_size (children (D_modules (subnet test_cfg [1, 1] 3)) ! 3) = 1"
proof -
  have h: "NLayerDiscriminator_init (PyInt 3) test_cfg [1, 1] 0 = Inr (subnet test_cfg [1, 1] 3)"
    by (rule test_init_D)
  have vals: "map conv_in_channels (children (D_modules (subnet test_cfg [1, 1] 3))) = [3, 16, 32, 64]"
    "map conv_out_channels (children (D_modules (subnet test_cfg [1, 1] 3))) = [16, 32, 64, 1]"
    by code_simp+
  show ?thesis
    using h vals channel_progression [OF h refl refl] by (simp add: subnet_def)
qed

text \<open>
  C9.  For a constructed discriminator, \<^verbatim>\<open>forward\<close> with the full sequence requested
  returns the outputs of its blocks in order, each block applied to the output of the one
  before it and the first to the input, the terminal output last; the sequence has
  \<open>n_layers_D + 1\<close> entries.  With only the terminal output requested it returns the last
  entry of that sequence, and both modes raise the same error when a block raises.  When no
  block raises, the pass returns.
\<close>

theorem forward_modes_agree:
  assumes "NLayerDiscriminator_init (PyInt n0) cfg padding index_D = Inr D"
  shows "NLayerDiscriminator_forward app D x True =
           (case layer_outputs app (children (D_modules D)) x of
              Inl e \<Rightarrow> Inl e | Inr outs \<Rightarrow> Inr (Features outs)) \<and>
         NLayerDiscriminator_forward app D x False =
           (case layer_outputs app (children (D_modules D)) x of
              Inl e \<Rightarrow> Inl e | Inr outs \<Rightarrow> Inr (Output (last outs))) \<and>
         (\<forall>outs. NLayerDiscriminator_forward app D x True = Inr (Features outs) \<longrightarrow>
            length outs = nat (D_n_layers_D D) + 1 \<and>
            NLayerDiscriminator_forward app D x False = Inr (Output (last outs))) \<and>
         ((\<forall>c t. \<exists>y. app c t = Inr y) \<longrightarrow>
            (\<exists>outs. NLayerDiscriminator_forward app D x True = Inr (Features outs)))"
proof -
  have D: "D = subnet cfg padding (n0 * (index_D + 1))"
    using assms by (rule NLayerDiscriminator_init_Inr)
  have n: "D_n_layers_D D = n0 * (index_D + 1)"
    by (simp add: D subnet_def)
  have len: "length ys = nat (D_n_layers_D D) + 1"
    if "layer_outputs app (children (D_modules D)) x = Inr ys" for ys
  proof -
    have "length ys = nat (n0 * (index_D + 1)) + 1"
      using that unfolding D by (rule layer_outputs_subnet_nonempty)
    then show ?thesis by (simp add: n)
  qed
  have ne: "last (x # ys) = last ys"
    if "layer_outputs app (children (D_modules D)) x = Inr ys" for ys
    using len [OF that] by (cases ys) simp_all
  have total: "\<exists>ys. layer_outputs app (children (D_modules D)) x = Inr ys"
    if "\<forall>c t. \<exists>y. app c t = Inr y"
    using that by (intro layer_outputs_total) simp
  have c1: "NLayerDiscriminator_forward app D x True =
           (case layer_outputs app (children (D_modules D)) x of
              Inl e \<Rightarrow> Inl e | Inr outs \<Rightarrow> Inr (Features outs))"
    by (simp add: NLayerDiscriminator_forward_eq split: sum.splits)
  have c2: "NLayerDiscriminator_forward app D x False =
           (case layer_outputs app (children (D_modules D)) x of
              Inl e \<Rightarrow> Inl e | Inr outs \<Rightarrow> Inr (Output (last outs)))"
    using ne by (simp add: NLayerDiscriminator_forward_eq split: sum.splits)
  have c3: "length outs = nat (D_n_layers_D D) + 1 \<and>
            NLayerDiscriminator_forward app D x False = Inr (Output (last outs))"
    if "NLayerDiscriminator_forward app D x True = Inr (Features outs)" for outs
  proof -
    have lo: "layer_outputs app (children (D_modules D)) x = Inr outs"
      using that unfolding c1 by (simp split: sum.splits)
    show ?thesis
      using len [OF lo] lo by (simp add: c2)
  qed
  have c4: "\<exists>outs. NLayerDiscriminator_forward app D x True = Inr (Features outs)"
    if "\<forall>c t. \<exists>y. app c t = Inr y"
  proof -
    from total [OF that] obtain ys where "layer_outputs app (children (D_modules D)) x = Inr ys"
      by blast
    then show ?thesis by (simp add: c1)
  qed
  show ?thesis
    using c1 c2 c3 c4 by blast
qed

theorem forward_modes_agree_witness:
  "NLayerDiscriminator_init (PyInt 3) test_cfg [1, 1] 0 = Inr (subnet test_cfg [1, 1] 3) \<and>
   NLayerDiscriminator_forward Convolution_shape (subnet test_cfg [1, 1] 3) [1, 3, 256, 512] True =
     Inr (Features [[1, 16, 128, 256], [1, 32, 64, 128], [1, 64, 32, 64], [1, 1, 32, 64]]) \<and>
   NLayerDiscriminator_forward Convolution_shape (subnet test_cfg [1, 1] 3) [1, 3, 256, 512] False =
     Inr (Output [1, 1, 32, 64])"
proof -
  have h: "NLayerDiscriminator_init (PyInt 3) test_cfg [1, 1] 0 = Inr (subnet test_cfg [1, 1] 3)"
    by (rule test_init_D)
  have full: "NLayerDiscriminator_forward Convolution_shape (subnet test_cfg [1, 1] 3)
      [1, 3, 256, 512] True =
     Inr (Features [[1, 16, 128, 256], [1, 32, 64, 128], [1, 64, 32, 64], [1, 1, 32, 64]])"
    by code_simp
  have "\<forall>outs. NLayerDiscriminator_forward Convolution_shape (subnet test_cfg [1, 1] 3)
      [1, 3, 256, 512] True = Inr (Features outs) \<longrightarrow>
      NLayerDiscriminator_forward Convolution_shape (subnet test_cfg [1, 1] 3)
        [1, 3, 256, 512] False = Inr (Output (last outs))"
    using forward_modes_agree [OF h, of Convolution_shape "[1, 3, 256, 512]"] by blast
  with full have "NLayerDiscriminator_forward Convolution_shape (subnet test_cfg [1, 1] 3)
      [1, 3, 256, 512] False =
      Inr (Output (last [[1, 16, 128, 256], [1, 32, 64, 128], [1, 64, 32, 64], [1, 1, 32, 64]]))"
    by blast
  then show ?thesis
    using h full by simp
qed



end
